theory Spec2Isabelle
  imports Main
begin

section \<open>The cache cell of \<open>src/index.ts\<close> and the event loop it runs on\<close>

text \<open>
  The class \<open>PromiseKeeper\<close> keeps the latest result of an expensive function. Its methods
  run to completion one after the other; what happens between them is the completion of a
  promise and the run of a callback that was registered with \<open>.finally\<close>. Both are made
  explicit: a store that maps the identity of a promise to its state, and a first-in
  first-out queue of promise jobs.

  A value handed out by the producer is either a plain value (no callable \<open>finally\<close>) or a
  promise, named by its identity. The producer \<open>fn\<close> is opaque: it is a parameter of the
  model, a function of the number of calls made before. A call returns a plain value,
  returns a promise, or throws. The promise it returns is the producer's choice: one never
  seen before, or one it has handed out earlier (settled or not).
\<close>

datatype 'a val = Raw 'a | Promise nat

datatype 'a outcome = Returns 'a | ReturnsPromise nat 'a | Throws

text \<open>The two bound methods that the class registers as completion callbacks.\<close>

datatype callback = Settle | Clear

record 'a promise =
  resolved :: bool
  result :: 'a
  reactions :: "callback list"

text \<open>
  The argument of \<open>keepFresh\<close> is a JavaScript number. The code compares it at most with
  zero and asks whether it is finite, so the integers and the three special values stand
  for it.
\<close>

datatype number = Num int | NaN | PosInfinity | NegInfinity

text \<open>
  What a method can throw: the error of \<open>getSettledOrThrowSync\<close>, and whatever the producer
  throws, which no method catches.
\<close>

datatype error = NoSettledData | ProducerError

text \<open>The private fields of the class (the producer \<open>fn\<close> is a parameter of the methods).\<close>

record 'a PromiseKeeper =
  settledData :: "'a val option"
  pendingData :: "'a val option"
  isEmpty :: bool
  isPending :: bool
  freshTimer :: "nat option"

text \<open>
  The cell together with its environment: how often the producer was called, the promises
  known so far, the queue of promise jobs (each with the promise it comes from), the
  interval timers that are active, the next timer handle, and the number of
  \<open>process.nextTick\<close> callbacks waiting.
\<close>

record 'a world = "'a PromiseKeeper" +
  invocationCount :: nat
  promises :: "nat \<rightharpoonup> 'a promise"
  microtasks :: "(nat \<times> callback) list"
  timers :: "(nat \<times> number) list"
  nextTimer :: nat
  nextTicks :: nat

definition init :: "'a world" where
  "init = \<lparr> settledData = None, pendingData = None, isEmpty = True, isPending = False,
             freshTimer = None, invocationCount = 0, promises = Map.empty, microtasks = [],
             timers = [], nextTimer = 0, nextTicks = 0 \<rparr>"

subsection \<open>Promises\<close>

text \<open>
  \<open>p.finally(cb)\<close>: on a promise that is still unsettled the callback joins its reactions;
  on a settled one a job is queued at once. The cell only ever holds promises that
  \<open>invoke\<close> has entered into the store; for an identity the store does not know the
  model leaves the state unchanged.
\<close>

definition promise_finally :: "nat \<Rightarrow> callback \<Rightarrow> 'a world \<Rightarrow> 'a world" where
  "promise_finally p cb w =
     (case promises w p of
        None \<Rightarrow> w
      | Some pr \<Rightarrow>
          (if resolved pr
           then w\<lparr>microtasks := microtasks w @ [(p, cb)]\<rparr>
           else w\<lparr>promises := (promises w)(p \<mapsto> pr\<lparr>reactions := reactions pr @ [cb]\<rparr>)\<rparr>))"

text \<open>
  The promise \<open>p\<close> completes (fulfilled or rejected): its reactions become jobs, in order.
  A promise that was settled before the producer first returned it is one that completes
  right after that call.
\<close>

definition complete :: "nat \<Rightarrow> 'a world \<Rightarrow> 'a world" where
  "complete p w =
     (case promises w p of
        None \<Rightarrow> w
      | Some pr \<Rightarrow>
          (if resolved pr then w
           else w\<lparr>promises := (promises w)(p \<mapsto> pr\<lparr>resolved := True, reactions := []\<rparr>),
                  microtasks := microtasks w @ map (Pair p) (reactions pr)\<rparr>))"

text \<open>What a value handed out by a read resolves to.\<close>

definition resolves_to :: "'a world \<Rightarrow> 'a val option \<Rightarrow> 'a option" where
  "resolves_to w v =
     (case v of
        None \<Rightarrow> None
      | Some (Raw x) \<Rightarrow> Some x
      | Some (Promise p) \<Rightarrow> map_option result (promises w p))"

subsection \<open>The private methods\<close>

definition settle :: "'a world \<Rightarrow> 'a world" where
  "settle w =
     (if isPending w
      then w\<lparr>settledData := pendingData w, isEmpty := False, isPending := False\<rparr>
      else w)"

definition clear :: "'a world \<Rightarrow> 'a world" where
  "clear w = w\<lparr>settledData := None, pendingData := None, isEmpty := True, isPending := False\<rparr>"

text \<open>
  \<open>invoke\<close> sets \<open>isPending\<close> before it calls the producer and has no handler around the
  call: when the producer throws, the flag stays set, \<open>pendingData\<close> is what it was, and
  the exception goes to the caller. A promise that the store does not know yet is entered
  as unsettled; one that it knows keeps its state, and the outcome named with it is
  ignored.
\<close>

definition invoke :: "(nat \<Rightarrow> 'a outcome) \<Rightarrow> 'a world \<Rightarrow> (error + unit) \<times> 'a world" where
  "invoke fn w =
     (let w1 = w\<lparr>isPending := True\<rparr> in
      case fn (invocationCount w1) of
        Throws \<Rightarrow> (Inl ProducerError, w1\<lparr>invocationCount := Suc (invocationCount w1)\<rparr>)
      | Returns x \<Rightarrow>
          (Inr (),
           settle (w1\<lparr>pendingData := Some (Raw x), invocationCount := Suc (invocationCount w1)\<rparr>))
      | ReturnsPromise p x \<Rightarrow>
          (Inr (),
           promise_finally p Settle
             (w1\<lparr>pendingData := Some (Promise p),
                 invocationCount := Suc (invocationCount w1),
                 promises :=
                   (case promises w1 p of
                      None \<Rightarrow> (promises w1)(p \<mapsto> \<lparr>resolved = False, result = x, reactions = []\<rparr>)
                    | Some pr \<Rightarrow> promises w1)\<rparr>)))"

subsection \<open>The public methods\<close>

text \<open>
  A method returns its result, or the error it throws, together with the state it leaves
  behind. \<open>refresh\<close> and \<open>purge\<close> return the cell itself, which carries no information.
\<close>

definition refresh :: "(nat \<Rightarrow> 'a outcome) \<Rightarrow> 'a world \<Rightarrow> (error + unit) \<times> 'a world" where
  "refresh fn w = (if \<not> isPending w then invoke fn w else (Inr (), w))"

definition purge :: "'a world \<Rightarrow> 'a world" where
  "purge w =
     clear (case pendingData w of
              Some (Promise p) \<Rightarrow> promise_finally p Clear w
            | _ \<Rightarrow> w)"

definition getPending ::
  "(nat \<Rightarrow> 'a outcome) \<Rightarrow> 'a world \<Rightarrow> (error + 'a val option) \<times> 'a world" where
  "getPending fn w =
     (if isEmpty w then
        (case refresh fn w of
           (Inl e, w') \<Rightarrow> (Inl e, w')
         | (Inr u, w') \<Rightarrow> (Inr (pendingData w'), w'))
      else (Inr (pendingData w), w))"

definition getSettled ::
  "(nat \<Rightarrow> 'a outcome) \<Rightarrow> 'a world \<Rightarrow> (error + 'a val option) \<times> 'a world" where
  "getSettled fn w =
     (if \<not> isEmpty w then (Inr (settledData w), w)
      else (case refresh fn w of
              (Inl e, w') \<Rightarrow> (Inl e, w')
            | (Inr u, w') \<Rightarrow> (Inr (pendingData w'), w')))"

definition getSettledOrThrowSync :: "'a world \<Rightarrow> (error + 'a val option) \<times> 'a world" where
  "getSettledOrThrowSync w =
     (if isEmpty w then (Inl NoSettledData, w) else (Inr (settledData w), w))"

definition getFresh ::
  "(nat \<Rightarrow> 'a outcome) \<Rightarrow> 'a world \<Rightarrow> (error + 'a val option) \<times> 'a world" where
  "getFresh fn w = getPending fn (purge w)"

definition stopFresh :: "'a world \<Rightarrow> 'a world" where
  "stopFresh w =
     (case freshTimer w of
        Some t \<Rightarrow> w\<lparr>timers := filter (\<lambda>e. fst e \<noteq> t) (timers w), freshTimer := None\<rparr>
      | None \<Rightarrow> w)"

definition default_interval :: number where
  "default_interval = Num (1000 * 60 * 60 * 30)"

text \<open>
  \<open>keepFresh(interval)\<close>; \<open>None\<close> is the call without an argument. \<open>setInterval\<close> hands out
  a new timer handle and the timer is active until it is cleared.
\<close>

definition keepFresh :: "number option \<Rightarrow> 'a world \<Rightarrow> 'a world" where
  "keepFresh arg w =
     (let interval = (case arg of None \<Rightarrow> default_interval | Some i \<Rightarrow> i);
          w1 = stopFresh w;
          t = nextTimer w1
      in w1\<lparr>timers := timers w1 @ [(t, interval)], nextTimer := Suc t, freshTimer := Some t\<rparr>)"

text \<open>
  The repository holds a second copy of the class (the one whose constructor calls
  \<open>refresh\<close>). Its \<open>keepFresh\<close> checks the duration first: when it is not finite or not
  positive it emits a warning and returns, touching nothing. The flag of the result says
  whether the warning was emitted.
\<close>

definition is_finite :: "number \<Rightarrow> bool" where
  "is_finite x = (case x of Num _ \<Rightarrow> True | _ \<Rightarrow> False)"

definition is_positive :: "number \<Rightarrow> bool" where
  "is_positive x = (case x of Num n \<Rightarrow> 0 < n | PosInfinity \<Rightarrow> True | _ \<Rightarrow> False)"

definition keepFresh_checked :: "number option \<Rightarrow> 'a world \<Rightarrow> bool \<times> 'a world" where
  "keepFresh_checked arg w =
     (let timeout = (case arg of None \<Rightarrow> default_interval | Some i \<Rightarrow> i) in
      if \<not> is_finite timeout \<or> \<not> is_positive timeout then (True, w)
      else (let w1 = stopFresh w;
                t = nextTimer w1
            in (False, w1\<lparr>timers := timers w1 @ [(t, timeout)], nextTimer := Suc t,
                            freshTimer := Some t\<rparr>)))"

subsection \<open>Events\<close>

text \<open>
  Everything that can happen to a cell: a call of a public method, the completion of a
  promise, the run of the first promise job, an interval timer firing (its callback hands
  \<open>refresh\<close> to \<open>process.nextTick\<close>), and the run of a waiting \<open>nextTick\<close> callback. A
  step gives the state that the event leaves behind, also when the method has thrown: the
  caller may catch the exception and go on using the cell, and so may the process when
  the exception leaves a \<open>nextTick\<close> callback.
\<close>

datatype event =
    GetFresh | GetPending | GetSettled | GetSettledOrThrowSync | Refresh | Purge
  | KeepFresh "number option" | StopFresh
  | Complete nat | Microtask | TimerFire nat | NextTick

definition run_callback :: "callback \<Rightarrow> 'a world \<Rightarrow> 'a world" where
  "run_callback cb w = (case cb of Settle \<Rightarrow> settle w | Clear \<Rightarrow> clear w)"

definition microtask :: "'a world \<Rightarrow> 'a world" where
  "microtask w =
     (case microtasks w of
        [] \<Rightarrow> w
      | job # rest \<Rightarrow> run_callback (snd job) (w\<lparr>microtasks := rest\<rparr>))"

definition timer_fire :: "nat \<Rightarrow> 'a world \<Rightarrow> 'a world" where
  "timer_fire t w = (if t \<in> set (map fst (timers w)) then w\<lparr>nextTicks := Suc (nextTicks w)\<rparr> else w)"

definition next_tick :: "(nat \<Rightarrow> 'a outcome) \<Rightarrow> 'a world \<Rightarrow> 'a world" where
  "next_tick fn w =
     (case nextTicks w of 0 \<Rightarrow> w | Suc n \<Rightarrow> snd (refresh fn (w\<lparr>nextTicks := n\<rparr>)))"

fun step :: "(nat \<Rightarrow> 'a outcome) \<Rightarrow> 'a world \<Rightarrow> event \<Rightarrow> 'a world" where
  "step fn w GetFresh = snd (getFresh fn w)"
| "step fn w GetPending = snd (getPending fn w)"
| "step fn w GetSettled = snd (getSettled fn w)"
| "step fn w GetSettledOrThrowSync = snd (getSettledOrThrowSync w)"
| "step fn w Refresh = snd (refresh fn w)"
| "step fn w Purge = purge w"
| "step fn w (KeepFresh arg) = keepFresh arg w"
| "step fn w StopFresh = stopFresh w"
| "step fn w (Complete p) = complete p w"
| "step fn w Microtask = microtask w"
| "step fn w (TimerFire t) = timer_fire t w"
| "step fn w NextTick = next_tick fn w"

definition run :: "(nat \<Rightarrow> 'a outcome) \<Rightarrow> event list \<Rightarrow> 'a world \<Rightarrow> 'a world" where
  "run fn es w = foldl (step fn) w es"

text \<open>
  The producer of the tests: an async function; each call makes a new promise, which
  resolves to the invocation number.
\<close>

definition expensive :: "nat \<Rightarrow> int outcome" where
  "expensive n = ReturnsPromise n (int n + 1)"

text \<open>A producer that hands out one and the same promise at every call.\<close>

definition shared :: "nat \<Rightarrow> int outcome" where
  "shared n = ReturnsPromise 0 1"

subsection \<open>Notions used to state the properties\<close>


fun keeps_window :: "event \<Rightarrow> bool" where
  "keeps_window GetFresh = False"
| "keeps_window Purge = False"
| "keeps_window (Complete p) = False"
| "keeps_window Microtask = False"
| "keeps_window _ = True"

text \<open>Invariants of the cell.\<close>

definition empty_inv :: "'a world \<Rightarrow> bool" where
  "empty_inv w = (if isEmpty w then settledData w = None else True)"




definition same_window :: "'a world \<Rightarrow> 'a world \<Rightarrow> bool" where
  "same_window w w' =
     (isPending w' \<and> pendingData w' = pendingData w \<and> invocationCount w' = invocationCount w
      \<and> promises w' = promises w)"


section \<open>Auxiliary facts\<close>

lemmas method_defs =
  getFresh_def getPending_def getSettled_def getSettledOrThrowSync_def refresh_def purge_def
  keepFresh_def stopFresh_def invoke_def settle_def clear_def promise_finally_def complete_def
  microtask_def run_callback_def timer_fire_def next_tick_def Let_def

lemmas trace_defs = run_def init_def expensive_def method_defs

lemma run_Nil: "run fn [] w = w"
  by (simp add: run_def)

lemma run_Cons: "run fn (e # es) w = run fn es (step fn w e)"
  by (simp add: run_def)


subsection \<open>An empty cell holds no settled value\<close>

lemma empty_inv_init: "empty_inv init"
  by (simp add: empty_inv_def init_def)

lemma empty_inv_step: "empty_inv w \<Longrightarrow> empty_inv (step fn w e)"
  by (cases e)
     (auto simp: empty_inv_def method_defs split: option.splits val.splits outcome.splits
        list.splits callback.splits nat.splits if_splits)

lemma empty_inv_run: "empty_inv w \<Longrightarrow> empty_inv (run fn es w)"
  by (induction es arbitrary: w) (simp_all add: run_Nil run_Cons empty_inv_step)

subsection \<open>The pending value is a promise of the store\<close>




subsection \<open>After a purge, without a new invocation\<close>




subsection \<open>A purged promise that the producer does not hand out again\<close>




subsection \<open>The pending window\<close>

lemma same_window_step: "same_window w w' \<Longrightarrow> keeps_window e \<Longrightarrow> same_window w (step fn w' e)"
  by (cases e)
     (auto simp: same_window_def method_defs split: option.splits nat.splits if_splits)

lemma same_window_run: "same_window w w' \<Longrightarrow> list_all keeps_window es \<Longrightarrow> same_window w (run fn es w')"
  by (induction es arbitrary: w') (simp_all add: run_Nil run_Cons same_window_step)

subsection \<open>A producer that hands out the same promise again\<close>

text \<open>
  The promise that was purged comes back as the settled value when the producer returns it
  once more: here after the first invocation has settled and the cell was purged.
\<close>

lemma shared_promise_comes_back:
  "settledData (run shared [GetPending, Complete 0, Microtask, Purge, Microtask] init) = None
   \<and> settledData (run shared [GetPending, Complete 0, Microtask, Purge, Microtask, GetPending, Microtask] init)
       = Some (Promise 0)"
  by (simp add: run_def init_def shared_def method_defs)

section \<open>The properties of the specification\<close>




text \<open>
  Claim C2: the trace of the test "purge() after slow invocation", step by step.
  The first read starts invocation 1 (promise 0, resolving to 1) and the cell is pending.
  The purge empties the cell and leaves the deferred clear behind the settle on promise 0.
  The second read starts invocation 2 (promise 1, resolving to 2). When promise 1 has
  completed and its settle has run, promise 1 is the settled value: the cell is neither
  empty nor pending, and a read returns promise 1 without a new invocation. When promise 0
  completes at last, its two callbacks are queued: the settle changes nothing, as nothing
  is pending, and the deferred clear erases the cached promise 1. The next read starts
  invocation 3 (promise 2), which resolves to 3.
\<close>

theorem purge_after_slow_invocation:
  "fst (getPending expensive init) = Inr (Some (Promise 0))
   \<and> resolves_to (run expensive [GetPending] init) (Some (Promise 0)) = Some 1
   \<and> isPending (run expensive [GetPending] init)
   \<and> isEmpty (run expensive [GetPending, Purge] init)
   \<and> \<not> isPending (run expensive [GetPending, Purge] init)
   \<and> pendingData (run expensive [GetPending, Purge] init) = None
   \<and> map_option reactions (promises (run expensive [GetPending, Purge] init) 0) = Some [Settle, Clear]
   \<and> microtasks (run expensive [GetPending, Purge] init) = []
   \<and> fst (getPending expensive (run expensive [GetPending, Purge] init)) = Inr (Some (Promise 1))
   \<and> resolves_to (run expensive [GetPending, Purge, GetPending] init) (Some (Promise 1)) = Some 2
   \<and> isPending (run expensive [GetPending, Purge, GetPending] init)
   \<and> isEmpty (run expensive [GetPending, Purge, GetPending] init)
   \<and> microtasks (run expensive [GetPending, Purge, GetPending, Complete 1] init) = [(1, Settle)]
   \<and> settledData (run expensive [GetPending, Purge, GetPending, Complete 1, Microtask] init)
       = Some (Promise 1)
   \<and> \<not> isEmpty (run expensive [GetPending, Purge, GetPending, Complete 1, Microtask] init)
   \<and> \<not> isPending (run expensive [GetPending, Purge, GetPending, Complete 1, Microtask] init)
   \<and> fst (getPending expensive (run expensive [GetPending, Purge, GetPending, Complete 1, Microtask] init))
       = Inr (Some (Promise 1))
   \<and> fst (getSettledOrThrowSync (run expensive [GetPending, Purge, GetPending, Complete 1, Microtask] init))
       = Inr (Some (Promise 1))
   \<and> invocationCount (run expensive [GetPending, Purge, GetPending, Complete 1, Microtask, GetPending] init) = 2
   \<and> microtasks (run expensive
        [GetPending, Purge, GetPending, Complete 1, Microtask, GetPending, Complete 0] init)
       = [(0, Settle), (0, Clear)]
   \<and> settledData (run expensive
        [GetPending, Purge, GetPending, Complete 1, Microtask, GetPending, Complete 0, Microtask] init)
       = Some (Promise 1)
   \<and> \<not> isEmpty (run expensive
        [GetPending, Purge, GetPending, Complete 1, Microtask, GetPending, Complete 0, Microtask] init)
   \<and> microtasks (run expensive
        [GetPending, Purge, GetPending, Complete 1, Microtask, GetPending, Complete 0, Microtask] init)
       = [(0, Clear)]
   \<and> isEmpty (run expensive
        [GetPending, Purge, GetPending, Complete 1, Microtask, GetPending, Complete 0, Microtask, Microtask] init)
   \<and> settledData (run expensive
        [GetPending, Purge, GetPending, Complete 1, Microtask, GetPending, Complete 0, Microtask, Microtask] init) = None
   \<and> pendingData (run expensive
        [GetPending, Purge, GetPending, Complete 1, Microtask, GetPending, Complete 0, Microtask, Microtask] init) = None
   \<and> fst (getSettledOrThrowSync (run expensive
        [GetPending, Purge, GetPending, Complete 1, Microtask, GetPending, Complete 0, Microtask, Microtask] init))
       = Inl NoSettledData
   \<and> fst (getPending expensive (run expensive
        [GetPending, Purge, GetPending, Complete 1, Microtask, GetPending, Complete 0, Microtask, Microtask] init))
       = Inr (Some (Promise 2))
   \<and> resolves_to (run expensive
        [GetPending, Purge, GetPending, Complete 1, Microtask, GetPending, Complete 0, Microtask, Microtask,
         GetPending] init) (Some (Promise 2)) = Some 3
   \<and> invocationCount (run expensive
        [GetPending, Purge, GetPending, Complete 1, Microtask, GetPending, Complete 0, Microtask, Microtask,
         GetPending] init) = 3"
  by (simp add: trace_defs resolves_to_def)




text \<open>
  Claim C4, evaluated on the code. A cell has the timer 0, scheduled with an interval of
  10. \<open>keepFresh(-1)\<close> and \<open>keepFresh(NaN)\<close> cancel that timer and install timer 1 with
  the invalid interval: the method makes no check of its argument. The second copy of the
  class makes the check and leaves the cell as it was.
\<close>

theorem keepFresh_invalid_interval_replaces_timer:
  "timers (keepFresh (Some (Num 10)) (init :: int world)) = [(0, Num 10)]
   \<and> freshTimer (keepFresh (Some (Num 10)) (init :: int world)) = Some 0
   \<and> timers (keepFresh (Some (Num (- 1))) (keepFresh (Some (Num 10)) (init :: int world))) = [(1, Num (- 1))]
   \<and> freshTimer (keepFresh (Some (Num (- 1))) (keepFresh (Some (Num 10)) (init :: int world))) = Some 1
   \<and> timers (keepFresh (Some NaN) (keepFresh (Some (Num 10)) (init :: int world))) = [(1, NaN)]
   \<and> freshTimer (keepFresh (Some NaN) (keepFresh (Some (Num 10)) (init :: int world))) = Some 1
   \<and> keepFresh_checked (Some (Num (- 1))) (keepFresh (Some (Num 10)) (init :: int world))
       = (True, keepFresh (Some (Num 10)) init)
   \<and> keepFresh_checked (Some NaN) (keepFresh (Some (Num 10)) (init :: int world))
       = (True, keepFresh (Some (Num 10)) init)"
  by (simp add: keepFresh_def keepFresh_checked_def stopFresh_def init_def is_finite_def
      is_positive_def Let_def)

text \<open>
  Witness for C4: \<open>-1\<close> is finite and not positive, \<open>NaN\<close> is not finite; the checked copy
  warns on both, the class of \<open>src/index.ts\<close> installs timer 1.
\<close>

theorem keepFresh_invalid_interval_replaces_timer_witness:
  "is_finite (Num (- 1)) \<and> \<not> is_positive (Num (- 1)) \<and> \<not> is_finite NaN
   \<and> freshTimer (keepFresh (Some (Num (- 1))) (keepFresh (Some (Num 10)) (init :: int world))) = Some 1
   \<and> fst (keepFresh_checked (Some (Num (- 1))) (keepFresh (Some (Num 10)) (init :: int world)))
   \<and> fst (keepFresh_checked (Some NaN) (keepFresh (Some (Num 10)) (init :: int world)))"
  using keepFresh_invalid_interval_replaces_timer
  by (simp add: is_finite_def is_positive_def)

text \<open>
  Claim C5: while \<open>isPending\<close> holds, \<open>refresh\<close> returns without a change, \<open>getPending\<close>
  returns the pending value and changes nothing, so two reads in a row return the same
  future; and over any run of reads, refreshes and timer events within the window the
  producer is not called again and a read still returns the same future, which resolves to
  the same value.
\<close>

theorem refresh_while_pending_is_noop:
  assumes "isPending w"
  shows "refresh fn w = (Inr (), w)
     \<and> getPending fn w = (Inr (pendingData w), w)
     \<and> fst (getPending fn (snd (getPending fn w))) = fst (getPending fn w)
     \<and> (list_all keeps_window es \<longrightarrow>
          invocationCount (run fn es w) = invocationCount w
          \<and> fst (getPending fn (run fn es w)) = Inr (pendingData w)
          \<and> resolves_to (run fn es w) (pendingData w) = resolves_to w (pendingData w))"
proof -
  have r: "refresh fn w = (Inr (), w)" using assms by (simp add: refresh_def)
  have g: "getPending fn w = (Inr (pendingData w), w)"
    using assms by (simp add: getPending_def refresh_def)
  have w: "list_all keeps_window es \<longrightarrow>
          invocationCount (run fn es w) = invocationCount w
          \<and> fst (getPending fn (run fn es w)) = Inr (pendingData w)
          \<and> resolves_to (run fn es w) (pendingData w) = resolves_to w (pendingData w)"
  proof
    assume "list_all keeps_window es"
    moreover have "same_window w w" using assms by (simp add: same_window_def)
    ultimately have "same_window w (run fn es w)" by (simp add: same_window_run)
    then show "invocationCount (run fn es w) = invocationCount w
          \<and> fst (getPending fn (run fn es w)) = Inr (pendingData w)
          \<and> resolves_to (run fn es w) (pendingData w) = resolves_to w (pendingData w)"
      by (auto simp: same_window_def getPending_def refresh_def resolves_to_def
          split: option.splits val.splits)
  qed
  from r g w show ?thesis by (simp only: fst_conv snd_conv)
qed

text \<open>
  Witness for C5: the window of the first invocation.
\<close>

theorem refresh_while_pending_is_noop_witness:
  "isPending (run expensive [GetPending] init)
   \<and> refresh expensive (run expensive [GetPending] init) = (Inr (), run expensive [GetPending] init)
   \<and> fst (getPending expensive (snd (getPending expensive (run expensive [GetPending] init))))
       = Inr (Some (Promise 0))
   \<and> list_all keeps_window [Refresh, GetPending, TimerFire 0, NextTick, GetSettled]
   \<and> invocationCount (run expensive [Refresh, GetPending, TimerFire 0, NextTick, GetSettled]
        (run expensive [GetPending] init)) = 1
   \<and> resolves_to (run expensive [GetPending] init)
        (pendingData (run expensive [GetPending] init)) = Some 1"
  using refresh_while_pending_is_noop
    [of "run expensive [GetPending] init" expensive "[Refresh, GetPending, TimerFire 0, NextTick, GetSettled]"]
  by (simp add: trace_defs resolves_to_def)



text \<open>
  Claim C7: on a cell that is not empty \<open>getSettled\<close> returns \<open>settledData\<close> and leaves
  the state as it is, whatever is pending; on an empty cell it calls \<open>refresh\<close> and returns
  the resulting \<open>pendingData\<close> (and when the producer throws in that call, the exception
  is what the caller gets).
\<close>

theorem getSettled_prefers_settled:
  "(\<not> isEmpty w \<longrightarrow> getSettled fn w = (Inr (settledData w), w))
   \<and> (isEmpty w \<and> fst (refresh fn w) = Inr () \<longrightarrow>
        getSettled fn w = (Inr (pendingData (snd (refresh fn w))), snd (refresh fn w)))
   \<and> (isEmpty w \<and> fst (refresh fn w) = Inl e \<longrightarrow>
        getSettled fn w = (Inl e, snd (refresh fn w)))"
  by (auto simp: getSettled_def split: prod.splits sum.splits)

text \<open>
  Witness for C7: the first invocation has settled and a refresh has started the second;
  \<open>getSettled\<close> returns the first promise while the second is pending. On the initial
  cell it starts the first invocation and returns its promise; with a producer that
  throws, it throws.
\<close>

theorem getSettled_prefers_settled_witness:
  "\<not> isEmpty (run expensive [GetPending, Complete 0, Microtask, Refresh] init)
   \<and> isPending (run expensive [GetPending, Complete 0, Microtask, Refresh] init)
   \<and> pendingData (run expensive [GetPending, Complete 0, Microtask, Refresh] init) = Some (Promise 1)
   \<and> getSettled expensive (run expensive [GetPending, Complete 0, Microtask, Refresh] init)
       = (Inr (Some (Promise 0)), run expensive [GetPending, Complete 0, Microtask, Refresh] init)
   \<and> isEmpty (init :: int world)
   \<and> fst (refresh expensive init) = Inr ()
   \<and> fst (getSettled expensive init) = Inr (Some (Promise 0))
   \<and> isPending (snd (getSettled expensive init))
   \<and> fst (refresh (\<lambda>n. Throws) (init :: int world)) = Inl ProducerError
   \<and> fst (getSettled (\<lambda>n. Throws) (init :: int world)) = Inl ProducerError"
  using getSettled_prefers_settled
      [of "run expensive [GetPending, Complete 0, Microtask, Refresh] init" expensive ProducerError]
    getSettled_prefers_settled [of "init :: int world" expensive ProducerError]
    getSettled_prefers_settled [of "init :: int world" "\<lambda>n. Throws" ProducerError]
  by (simp add: trace_defs)

text \<open>
  Claim C8: in every state reached from the initial cell by any sequence of events, an
  empty cell has no settled value.
\<close>

theorem empty_cell_has_no_settled_value:
  "isEmpty (run fn es init) \<Longrightarrow> settledData (run fn es init) = None"
proof -
  assume e: "isEmpty (run fn es init)"
  have "empty_inv (run fn es init)" by (simp add: empty_inv_run empty_inv_init)
  with e show ?thesis by (simp add: empty_inv_def)
qed

text \<open>
  Witness for C8: a settled cell is purged and read again.
\<close>

theorem empty_cell_has_no_settled_value_witness:
  "isEmpty (run expensive [GetPending, Complete 0, Microtask, Purge, GetPending] init)
   \<and> settledData (run expensive [GetPending, Complete 0, Microtask, Purge, GetPending] init) = None"
proof -
  have e: "isEmpty (run expensive [GetPending, Complete 0, Microtask, Purge, GetPending] init)"
    by (simp add: trace_defs)
  from e empty_cell_has_no_settled_value [OF e] show ?thesis by simp
qed

text \<open>
  Claim C9: the invocation of the cell has settled (its promise \<open>p\<close> is resolved, nothing
  is pending, no job is queued) and the producer will hand out a new promise \<open>q\<close>. \<open>purge\<close>
  queues a deferred clear on \<open>p\<close>. \<open>getFresh\<close> starts a new invocation with promise \<open>q\<close>;
  the deferred clear then runs and wipes \<open>pendingData\<close> and \<open>isPending\<close>; when \<open>q\<close>
  completes, its settle finds \<open>isPending\<close> false and the cell stays empty.
\<close>

theorem purge_of_settled_cell_voids_next_refresh:
  assumes "pendingData w = Some (Promise p)" and "promises w p = Some pr"
    and "resolved pr" and "\<not> isPending w" and "microtasks w = []"
    and "fn (invocationCount w) = ReturnsPromise q x" and "promises w q = None"
  shows "microtasks (purge w) = [(p, Clear)]
     \<and> fst (getFresh fn w) = Inr (Some (Promise q))
     \<and> isPending (run fn [GetFresh] w)
     \<and> pendingData (run fn [GetFresh] w) = Some (Promise q)
     \<and> microtasks (run fn [GetFresh] w) = [(p, Clear)]
     \<and> \<not> isPending (run fn [GetFresh, Microtask] w)
     \<and> pendingData (run fn [GetFresh, Microtask] w) = None
     \<and> microtasks (run fn [GetFresh, Microtask, Complete q] w) = [(q, Settle)]
     \<and> isEmpty (run fn [GetFresh, Microtask, Complete q, Microtask] w)
     \<and> settledData (run fn [GetFresh, Microtask, Complete q, Microtask] w) = None
     \<and> \<not> isPending (run fn [GetFresh, Microtask, Complete q, Microtask] w)
     \<and> microtasks (run fn [GetFresh, Microtask, Complete q, Microtask] w) = []"
proof -
  from assms(2,7) have "p \<noteq> q" by auto
  with assms show ?thesis by (simp add: run_def method_defs)
qed

text \<open>
  Witness for C9: \<open>getFresh\<close> on the cell in which the first invocation has settled.
\<close>

theorem purge_of_settled_cell_voids_next_refresh_witness:
  "pendingData (run expensive [GetPending, Complete 0, Microtask] init) = Some (Promise 0)
   \<and> \<not> isEmpty (run expensive [GetPending, Complete 0, Microtask] init)
   \<and> promises (run expensive [GetPending, Complete 0, Microtask] init) 0
       = Some \<lparr>resolved = True, result = 1, reactions = []\<rparr>
   \<and> \<not> isPending (run expensive [GetPending, Complete 0, Microtask] init)
   \<and> microtasks (run expensive [GetPending, Complete 0, Microtask] init) = []
   \<and> expensive (invocationCount (run expensive [GetPending, Complete 0, Microtask] init)) = ReturnsPromise 1 2
   \<and> promises (run expensive [GetPending, Complete 0, Microtask] init) 1 = None
   \<and> isEmpty (run expensive [GetFresh, Microtask, Complete 1, Microtask]
        (run expensive [GetPending, Complete 0, Microtask] init))"
proof -
  have h: "pendingData (run expensive [GetPending, Complete 0, Microtask] init) = Some (Promise 0)"
    "promises (run expensive [GetPending, Complete 0, Microtask] init) 0
       = Some \<lparr>resolved = True, result = 1, reactions = []\<rparr>"
    "resolved \<lparr>resolved = True, result = 1 :: int, reactions = []\<rparr>"
    "\<not> isPending (run expensive [GetPending, Complete 0, Microtask] init)"
    "microtasks (run expensive [GetPending, Complete 0, Microtask] init) = []"
    "expensive (invocationCount (run expensive [GetPending, Complete 0, Microtask] init)) = ReturnsPromise 1 2"
    "promises (run expensive [GetPending, Complete 0, Microtask] init) 1 = None"
    "\<not> isEmpty (run expensive [GetPending, Complete 0, Microtask] init)"
    by (simp_all add: trace_defs)
  from purge_of_settled_cell_voids_next_refresh
      [where w = "run expensive [GetPending, Complete 0, Microtask] init" and p = 0
         and fn = expensive and x = 2 and q = 1, OF h(1-7)] h
  show ?thesis by simp
qed

text \<open>
  Claim C10: when the producer returns a plain value, \<open>invoke\<close> settles within the call:
  it returns normally, the cell is not empty, nothing is pending and
  \<open>getSettledOrThrowSync\<close> returns that value; the same holds for \<open>refresh\<close> whenever it
  calls the producer.
\<close>

theorem plain_value_settles_synchronously:
  assumes "fn (invocationCount w) = Returns x"
  shows "fst (invoke fn w) = Inr ()
     \<and> \<not> isEmpty (snd (invoke fn w)) \<and> \<not> isPending (snd (invoke fn w))
     \<and> fst (getSettledOrThrowSync (snd (invoke fn w))) = Inr (Some (Raw x))
     \<and> (\<not> isPending w \<longrightarrow>
          fst (refresh fn w) = Inr ()
          \<and> \<not> isEmpty (snd (refresh fn w)) \<and> \<not> isPending (snd (refresh fn w))
          \<and> fst (getSettledOrThrowSync (snd (refresh fn w))) = Inr (Some (Raw x)))"
  using assms by (simp add: refresh_def invoke_def settle_def getSettledOrThrowSync_def Let_def)

text \<open>
  Witness for C10: a producer that returns the number 7, on the initial cell.
\<close>

theorem plain_value_settles_synchronously_witness:
  "(\<lambda>n. Returns (7::int)) (invocationCount (init :: int world)) = Returns 7
   \<and> \<not> isPending (init :: int world)
   \<and> \<not> isEmpty (snd (refresh (\<lambda>n. Returns (7::int)) init))
   \<and> fst (getSettledOrThrowSync (snd (refresh (\<lambda>n. Returns (7::int)) init))) = Inr (Some (Raw 7))"
  using plain_value_settles_synchronously [of "\<lambda>n. Returns (7::int)" "init :: int world" 7]
  by (simp add: init_def)

end
